theory Spec2Isabelle
  imports Main "HOL-Library.Word"
begin

section \<open>Python values and exceptions\<close>

text \<open>
  The service is a FastAPI application of one module, \<^verbatim>\<open>main.py\<close>. It talks to an
  external library object (\<^verbatim>\<open>qris_processor\<close>) whose results are ordinary, dynamically
  typed Python values. The values that the handlers inspect are modelled by \<open>pyval\<close>:
  \<^verbatim>\<open>None\<close>, booleans, integers, strings, lists, dictionaries with string keys (an
  association list, looked up from the front), and an image object of the imaging
  library, whose type \<open>'img\<close> is left open. Floats, byte strings and objects of other
  classes are left out.

  Strings are \<open>string\<close>. For the value of an HTTP header this is exact: the framework
  decodes header bytes as Latin-1, one character per byte. A character is ASCII when its
  code is below 128.
\<close>

datatype 'img pyval =
    PNone
  | PBool bool
  | PInt int
  | PStr string
  | PList "'img pyval list"
  | PDict "(string \<times> 'img pyval) list"
  | PImage 'img

text \<open>
  \<open>exn\<close> models the instances of Python's \<^verbatim>\<open>Exception\<close> class, which are what
  \<^verbatim>\<open>except Exception\<close> catches. \<open>HTTPException\<close> is the framework's exception with its
  \<^verbatim>\<open>status_code\<close> and \<^verbatim>\<open>detail\<close>; \<open>OtherError\<close> is any other exception, given by
  its message \<^verbatim>\<open>str(e)\<close>.
\<close>

datatype exn =
    HTTPException nat string
  | TypeError string
  | AttributeError string
  | OtherError string

type_synonym byte = "8 word"

text \<open>
  What the module takes from outside: the two operations of the collaborator, which may
  raise and may change the state \<open>'w\<close> of the world (the payment network); the imaging
  library's \<^verbatim>\<open>save(buffer, format="PNG")\<close>, which yields the bytes written or raises;
  the class name of the image object; and the framework's \<^verbatim>\<open>HTTPException.__str__\<close>.
\<close>

record ('w, 'img) externals =
  generate_qr :: "int \<Rightarrow> 'w \<Rightarrow> (exn + 'img pyval) \<times> 'w"
  check_payment :: "string \<Rightarrow> int \<Rightarrow> 'w \<Rightarrow> (exn + 'img pyval) \<times> 'w"
  save_png :: "'img \<Rightarrow> exn + byte list"
  image_class_name :: string
  http_exception_str :: "nat \<Rightarrow> string \<Rightarrow> string"

text \<open>Python's truth value of an object, as \<^verbatim>\<open>not x\<close> and \<^verbatim>\<open>x and y\<close> test it.\<close>

fun truthy :: "'img pyval \<Rightarrow> bool" where
  "truthy PNone = False"
| "truthy (PBool b) = b"
| "truthy (PInt i) = (i \<noteq> 0)"
| "truthy (PStr s) = (s \<noteq> [])"
| "truthy (PList xs) = (xs \<noteq> [])"
| "truthy (PDict kvs) = (kvs \<noteq> [])"
| "truthy (PImage _) = True"

fun type_name :: "('w, 'img) externals \<Rightarrow> 'img pyval \<Rightarrow> string" where
  "type_name E PNone = ''NoneType''"
| "type_name E (PBool _) = ''bool''"
| "type_name E (PInt _) = ''int''"
| "type_name E (PStr _) = ''str''"
| "type_name E (PList _) = ''list''"
| "type_name E (PDict _) = ''dict''"
| "type_name E (PImage _) = image_class_name E"

definition quoted :: "string \<Rightarrow> string" where
  "quoted s = [CHR 0x27] @ s @ [CHR 0x27]"

definition no_attribute :: "('w, 'img) externals \<Rightarrow> 'img pyval \<Rightarrow> string \<Rightarrow> exn" where
  "no_attribute E v attr =
     AttributeError (quoted (type_name E v) @ '' object has no attribute '' @ quoted attr)"

text \<open>
  \<^verbatim>\<open>v.get(key, default)\<close>: only a dictionary has the method; on any other value the
  attribute lookup raises \<^verbatim>\<open>AttributeError\<close>.
\<close>

definition dict_get :: "(string \<times> 'img pyval) list \<Rightarrow> string \<Rightarrow> 'img pyval \<Rightarrow> 'img pyval" where
  "dict_get kvs key dflt = (case map_of kvs key of None \<Rightarrow> dflt | Some v \<Rightarrow> v)"

fun py_get :: "('w, 'img) externals \<Rightarrow> 'img pyval \<Rightarrow> string \<Rightarrow> 'img pyval \<Rightarrow> exn + 'img pyval" where
  "py_get E (PDict kvs) key dflt = Inr (dict_get kvs key dflt)"
| "py_get E v key dflt = Inl (no_attribute E v ''get'')"

text \<open>\<^verbatim>\<open>str(e)\<close>, the text that an f-string puts in place of \<^verbatim>\<open>{e}\<close>.\<close>

fun exn_str :: "('w, 'img) externals \<Rightarrow> exn \<Rightarrow> string" where
  "exn_str E (HTTPException code detail) = http_exception_str E code detail"
| "exn_str E (TypeError msg) = msg"
| "exn_str E (AttributeError msg) = msg"
| "exn_str E (OtherError msg) = msg"

section \<open>Configuration and request models\<close>

text \<open>
  \<^verbatim>\<open>Settings.INTERNAL_API_KEY = os.getenv("INTERNAL_API_KEY")\<close> is the variable's value or
  \<^verbatim>\<open>None\<close> when it is unset. A character of the secret beyond Latin-1 has no
  counterpart in \<open>string\<close>; the comparison treats it as it treats every non-ASCII
  character. \<^verbatim>\<open>QRIS_CONFIG\<close> is only handed to the collaborator's constructor and is
  part of \<open>externals\<close> here.
\<close>

record Settings =
  INTERNAL_API_KEY :: "string option"

text \<open>
  Of a request the middleware reads \<^verbatim>\<open>request.url.path\<close> and
  \<^verbatim>\<open>request.headers.get("X-API-KEY")\<close>, which is \<^verbatim>\<open>None\<close> when the header is absent.
\<close>

record request =
  path :: string
  x_api_key :: "string option"

record CreateQrisRequest =
  amount :: int
  order_ref :: string

record CheckStatusRequest =
  order_ref :: string
  amount :: int

record QrisResponse =
  order_ref :: string
  amount :: int
  qr_image_base64 :: string

record StatusResponse =
  status :: string

section \<open>The security middleware\<close>

definition is_ascii :: "string \<Rightarrow> bool" where
  "is_ascii s = list_all (\<lambda>c. (of_char c :: nat) < 128) s"

text \<open>
  \<^verbatim>\<open>hmac.compare_digest(a, b)\<close> with \<open>a\<close> a string. When \<open>b\<close> is \<^verbatim>\<open>None\<close> the
  combination of types is unsupported; when both are strings they must both be ASCII;
  in both cases the function raises \<^verbatim>\<open>TypeError\<close>. Otherwise it says whether the two
  strings are equal (in time that does not depend on where they differ, which the model
  does not express).
\<close>

definition unsupported_operand_types :: exn where
  "unsupported_operand_types =
     TypeError (''unsupported operand types(s) or combination of types: '' @
                quoted ''str'' @ '' and '' @ quoted ''NoneType'')"

definition non_ascii_not_supported :: exn where
  "non_ascii_not_supported =
     TypeError ''comparing strings with non-ASCII characters is not supported''"

definition compare_digest :: "string \<Rightarrow> string option \<Rightarrow> exn + bool" where
  "compare_digest a b =
     (case b of
        None \<Rightarrow> Inl unsupported_operand_types
      | Some s \<Rightarrow>
          if \<not> is_ascii a \<or> \<not> is_ascii s
          then Inl non_ascii_not_supported
          else Inr (a = s))"

definition forbidden :: exn where
  "forbidden = HTTPException 403 ''Forbidden: Invalid API Key''"

text \<open>
  \<^verbatim>\<open>secure_internal_api(request, call_next)\<close>. \<open>call_next\<close> is the rest of the
  application: the route handler with the parsed body. An exception raised here, by
  \<^verbatim>\<open>raise\<close> or by \<^verbatim>\<open>compare_digest\<close>, leaves the middleware; \<open>call_next\<close> is then
  not called and the world is as it was. The result of the model is that exception; the
  response that the framework makes of it is the framework's matter.
\<close>

definition secure_internal_api ::
  "Settings \<Rightarrow> request \<Rightarrow> (request \<Rightarrow> 'w \<Rightarrow> (exn + 'r) \<times> 'w) \<Rightarrow> 'w \<Rightarrow> (exn + 'r) \<times> 'w" where
  "secure_internal_api settings req call_next w =
     (if path req \<in> set [''/create-qris'', ''/check-payment'']
      then
        (case x_api_key req of
           None \<Rightarrow> (Inl forbidden, w)
         | Some api_key \<Rightarrow>
             if api_key = [] then (Inl forbidden, w)
             else
               (case compare_digest api_key (INTERNAL_API_KEY settings) of
                  Inl e \<Rightarrow> (Inl e, w)
                | Inr equal \<Rightarrow>
                    if \<not> equal then (Inl forbidden, w)
                    else call_next req w))
      else call_next req w)"

section \<open>Base64\<close>

text \<open>
  \<^verbatim>\<open>base64.b64encode(bs).decode('utf-8')\<close>: the standard alphabet, three bytes to four
  characters, the last group padded with \<open>=\<close>. The encoder's output is ASCII, so
  decoding it as UTF-8 gives the same characters.
\<close>

definition b64_alphabet :: string where
  "b64_alphabet = ''ABCDEFGHIJKLMNOPQRSTUVWXYZabcdefghijklmnopqrstuvwxyz0123456789+/''"

definition b64_char :: "nat \<Rightarrow> char" where
  "b64_char n = b64_alphabet ! n"

fun b64encode :: "byte list \<Rightarrow> string" where
  "b64encode [] = []"
| "b64encode [a] =
     [b64_char (unat a div 4), b64_char ((unat a mod 4) * 16), CHR ''='', CHR ''='']"
| "b64encode [a, b] =
     [b64_char (unat a div 4), b64_char ((unat a mod 4) * 16 + unat b div 16),
      b64_char ((unat b mod 16) * 4), CHR ''='']"
| "b64encode (a # b # c # rest) =
     [b64_char (unat a div 4), b64_char ((unat a mod 4) * 16 + unat b div 16),
      b64_char ((unat b mod 16) * 4 + unat c div 64), b64_char (unat c mod 64)]
     @ b64encode rest"

section \<open>The route handlers\<close>

text \<open>
  \<^verbatim>\<open>qr_image.save(buffered, format="PNG")\<close> followed by \<^verbatim>\<open>buffered.getvalue()\<close>: an
  image object has the method; on any other value the attribute lookup raises.
\<close>

fun image_save :: "('w, 'img) externals \<Rightarrow> 'img pyval \<Rightarrow> exn + byte list" where
  "image_save E (PImage img) = save_png E img"
| "image_save E v = Inl (no_attribute E v ''save'')"

text \<open>The body of the \<^verbatim>\<open>try\<close> block of \<^verbatim>\<open>create_qris\<close>.\<close>

definition create_qris_try ::
  "('w, 'img) externals \<Rightarrow> CreateQrisRequest \<Rightarrow> 'w \<Rightarrow> (exn + QrisResponse) \<times> 'w" where
  "create_qris_try E payload w =
     (case generate_qr E (CreateQrisRequest.amount payload) w of
        (Inl e, w') \<Rightarrow> (Inl e, w')
      | (Inr result, w') \<Rightarrow>
          ((case py_get E result ''qr_image'' PNone of
              Inl e \<Rightarrow> Inl e
            | Inr qr_image \<Rightarrow>
                if \<not> truthy qr_image
                then Inl (HTTPException 500 ''Library QRIS gagal membuat gambar.'')
                else
                  (case image_save E qr_image of
                     Inl e \<Rightarrow> Inl e
                   | Inr buffered \<Rightarrow>
                       Inr \<lparr>QrisResponse.order_ref = CreateQrisRequest.order_ref payload,
                            QrisResponse.amount = CreateQrisRequest.amount payload,
                            qr_image_base64 = ''data:image/png;base64,'' @ b64encode buffered\<rparr>)),
           w'))"

text \<open>
  \<^verbatim>\<open>create_qris(payload)\<close>: whatever exception the \<^verbatim>\<open>try\<close> block raises, the
  handler's own \<^verbatim>\<open>HTTPException\<close> included, is caught and raised again as a 500 whose
  detail ends with the text of the caught exception.
\<close>

definition create_qris ::
  "('w, 'img) externals \<Rightarrow> CreateQrisRequest \<Rightarrow> 'w \<Rightarrow> (exn + QrisResponse) \<times> 'w" where
  "create_qris E payload w =
     (case create_qris_try E payload w of
        (Inl e, w') \<Rightarrow> (Inl (HTTPException 500 (''Error saat generate QR: '' @ exn_str E e)), w')
      | (Inr response, w') \<Rightarrow> (Inr response, w'))"

text \<open>
  The body of the \<^verbatim>\<open>try\<close> block of \<^verbatim>\<open>check_payment_status\<close>. Python's \<^verbatim>\<open>and\<close>
  evaluates its right operand only when the left one is truthy; \<^verbatim>\<open>x == 'PAID'\<close> holds
  of the string \<^verbatim>\<open>'PAID'\<close> and of no other value.
\<close>

definition check_payment_status_try ::
  "('w, 'img) externals \<Rightarrow> CheckStatusRequest \<Rightarrow> 'w \<Rightarrow> (exn + StatusResponse) \<times> 'w" where
  "check_payment_status_try E payload w =
     (case check_payment E (CheckStatusRequest.order_ref payload)
                           (CheckStatusRequest.amount payload) w of
        (Inl e, w') \<Rightarrow> (Inl e, w')
      | (Inr payment_result, w') \<Rightarrow>
          ((case py_get E payment_result ''success'' PNone of
              Inl e \<Rightarrow> Inl e
            | Inr success \<Rightarrow>
                if \<not> truthy success then Inr \<lparr>status = ''PENDING''\<rparr>
                else
                  (case py_get E payment_result ''data'' (PDict []) of
                     Inl e \<Rightarrow> Inl e
                   | Inr data \<Rightarrow>
                       (case py_get E data ''status'' PNone of
                          Inl e \<Rightarrow> Inl e
                        | Inr st \<Rightarrow>
                            if st = PStr ''PAID'' then Inr \<lparr>status = ''PAID''\<rparr>
                            else Inr \<lparr>status = ''PENDING''\<rparr>))),
           w'))"

definition check_payment_status ::
  "('w, 'img) externals \<Rightarrow> CheckStatusRequest \<Rightarrow> 'w \<Rightarrow> (exn + StatusResponse) \<times> 'w" where
  "check_payment_status E payload w =
     (case check_payment_status_try E payload w of
        (Inl e, w') \<Rightarrow>
          (Inl (HTTPException 500 (''Error saat memeriksa pembayaran: '' @ exn_str E e)), w')
      | (Inr response, w') \<Rightarrow> (Inr response, w'))"

text \<open>\<^verbatim>\<open>root()\<close>, the handler of \<^verbatim>\<open>GET /\<close>.\<close>

definition root :: "(string \<times> string) list" where
  "root = [(''message'', ''MinerX QRIS Service is running'')]"

section \<open>The application: middleware around a handler\<close>

text \<open>
  A request to a route runs the middleware with the route's handler, applied to the
  validated body, as \<open>call_next\<close>.
\<close>

definition create_qris_endpoint ::
  "Settings \<Rightarrow> ('w, 'img) externals \<Rightarrow> request \<Rightarrow> CreateQrisRequest \<Rightarrow> 'w
     \<Rightarrow> (exn + QrisResponse) \<times> 'w" where
  "create_qris_endpoint settings E req payload w =
     secure_internal_api settings req (\<lambda>_. create_qris E payload) w"


definition root_endpoint ::
  "Settings \<Rightarrow> request \<Rightarrow> 'w \<Rightarrow> (exn + (string \<times> string) list) \<times> 'w" where
  "root_endpoint settings req w =
     secure_internal_api settings req (\<lambda>_ w'. (Inr root, w')) w"

text \<open>
  A request is authenticated when its key is present, not empty, and
  \<^verbatim>\<open>compare_digest\<close> returns \<^verbatim>\<open>True\<close> for it and the configured secret.
\<close>

definition authenticated :: "Settings \<Rightarrow> request \<Rightarrow> bool" where
  "authenticated settings req =
     (case x_api_key req of
        None \<Rightarrow> False
      | Some api_key \<Rightarrow>
          api_key \<noteq> [] \<and> compare_digest api_key (INTERNAL_API_KEY settings) = Inr True)"

section \<open>A Base64 decoder\<close>

text \<open>
  A decoder for the strings that \<open>b64encode\<close> produces. It is not part of the service;
  it serves to state that the encoding loses nothing.
\<close>

fun index_of :: "'a list \<Rightarrow> 'a \<Rightarrow> nat option" where
  "index_of [] x = None"
| "index_of (y # ys) x = (if x = y then Some 0 else map_option Suc (index_of ys x))"

definition b64_index :: "char \<Rightarrow> nat option" where
  "b64_index c = index_of b64_alphabet c"

fun b64decode :: "string \<Rightarrow> byte list option" where
  "b64decode [] = Some []"
| "b64decode (c1 # c2 # c3 # c4 # rest) =
     (case (b64_index c1, b64_index c2) of
        (Some i, Some j) \<Rightarrow>
          if rest = [] \<and> c3 = CHR ''='' \<and> c4 = CHR ''=''
          then Some [of_nat (i * 4 + j div 16)]
          else
            (case b64_index c3 of
               Some k \<Rightarrow>
                 if rest = [] \<and> c4 = CHR ''=''
                 then Some [of_nat (i * 4 + j div 16), of_nat ((j mod 16) * 16 + k div 4)]
                 else
                   (case (b64_index c4, b64decode rest) of
                      (Some l, Some bs) \<Rightarrow>
                        Some (of_nat (i * 4 + j div 16) # of_nat ((j mod 16) * 16 + k div 4) #
                              of_nat ((k mod 4) * 64 + l) # bs)
                    | _ \<Rightarrow> None)
             | None \<Rightarrow> None)
      | _ \<Rightarrow> None)"
| "b64decode _ = None"

section \<open>The status mapping in the specification's words\<close>

text \<open>
  The specification words the mapping of \<^verbatim>\<open>check_payment_status\<close> thus: the status is
  \<^verbatim>\<open>"PAID"\<close> if and only if the result's \<^verbatim>\<open>success\<close> field equals true and its nested
  \<^verbatim>\<open>data.status\<close> equals \<^verbatim>\<open>"PAID"\<close>; every other combination gives \<^verbatim>\<open>"PENDING"\<close>.
  "Equals true" is read with Python's \<^verbatim>\<open>==\<close>, under which \<^verbatim>\<open>1 == True\<close>.
\<close>

definition py_equals_true :: "'img pyval \<Rightarrow> bool" where
  "py_equals_true v = (v = PBool True \<or> v = PInt 1)"

definition spec_status :: "'img pyval \<Rightarrow> StatusResponse" where
  "spec_status payment_result =
     (if (case payment_result of
            PDict kvs \<Rightarrow>
              (case map_of kvs ''success'' of
                 None \<Rightarrow> False
               | Some success \<Rightarrow>
                   py_equals_true success \<and>
                   (case map_of kvs ''data'' of
                      Some (PDict d) \<Rightarrow> map_of d ''status'' = Some (PStr ''PAID'')
                    | _ \<Rightarrow> False))
          | _ \<Rightarrow> False)
      then \<lparr>status = ''PAID''\<rparr> else \<lparr>status = ''PENDING''\<rparr>)"

section \<open>Concrete inputs\<close>

text \<open>
  A collaborator that answers every call with a fixed result and counts the calls made to
  it; its image objects are their own PNG bytes. \<open>counting_next\<close> is a handler that
  counts its invocations.
\<close>

definition stub_externals ::
  "(exn + byte list pyval) \<Rightarrow> (exn + byte list pyval) \<Rightarrow> (nat, byte list) externals" where
  "stub_externals gen chk =
     \<lparr>generate_qr = (\<lambda>a n. (gen, Suc n)),
      check_payment = (\<lambda>r a n. (chk, Suc n)),
      save_png = Inr,
      image_class_name = ''Image'',
      http_exception_str = (\<lambda>code detail. detail)\<rparr>"

definition counting_next :: "request \<Rightarrow> nat \<Rightarrow> (exn + (string \<times> string) list) \<times> nat" where
  "counting_next req n = (Inr root, Suc n)"

definition sample_settings :: Settings where
  "sample_settings = \<lparr>INTERNAL_API_KEY = Some ''secret''\<rparr>"

definition sample_request :: "string \<Rightarrow> request" where
  "sample_request p = \<lparr>path = p, x_api_key = Some ''secret''\<rparr>"

definition sample_create :: CreateQrisRequest where
  "sample_create = \<lparr>CreateQrisRequest.amount = 10000, CreateQrisRequest.order_ref = ''ORD-1''\<rparr>"

definition sample_check :: CheckStatusRequest where
  "sample_check = \<lparr>CheckStatusRequest.order_ref = ''ORD-1'', CheckStatusRequest.amount = 10000\<rparr>"

definition sample_image :: "byte list pyval" where
  "sample_image =
     PDict [(''qr_string'', PStr ''000201''),
            (''qr_image'', PImage [0x66, 0x6F, 0x6F, 0x62, 0x61, 0x72])]"

definition yes_paid_result :: "byte list pyval" where
  "yes_paid_result =
     PDict [(''success'', PStr ''yes''), (''data'', PDict [(''status'', PStr ''PAID'')])]"

definition null_data_result :: "byte list pyval" where
  "null_data_result = PDict [(''success'', PBool True), (''data'', PNone)]"

lemmas stub_simps = stub_externals_def sample_check_def sample_create_def

section \<open>Base64 loses nothing\<close>

lemma index_of_nth: "distinct xs \<Longrightarrow> n < length xs \<Longrightarrow> index_of xs (xs ! n) = Some n"
proof (induction xs arbitrary: n)
  case Nil
  then show ?case by simp
next
  case (Cons y ys)
  show ?case
  proof (cases n)
    case 0
    then show ?thesis by simp
  next
    case (Suc m)
    with Cons.prems have "ys ! m \<in> set ys" "y \<notin> set ys" by auto
    then have "ys ! m \<noteq> y" by auto
    with Cons Suc show ?thesis by simp
  qed
qed

lemma length_b64_alphabet: "length b64_alphabet = 64"
  by (simp add: b64_alphabet_def)

lemma distinct_b64_alphabet: "distinct b64_alphabet"
  by (simp add: b64_alphabet_def)

lemma pad_not_in_alphabet: "CHR ''='' \<notin> set b64_alphabet"
  by (simp add: b64_alphabet_def)

lemma b64_index_char: "n < 64 \<Longrightarrow> b64_index (b64_char n) = Some n"
  by (simp add: b64_index_def b64_char_def index_of_nth distinct_b64_alphabet length_b64_alphabet)

lemma b64_char_not_pad: "n < 64 \<Longrightarrow> b64_char n \<noteq> CHR ''=''"
proof
  assume "n < 64" and eq: "b64_char n = CHR ''=''"
  then have "b64_alphabet ! n \<in> set b64_alphabet"
    by (simp add: length_b64_alphabet)
  with eq pad_not_in_alphabet show False
    by (simp add: b64_char_def)
qed

lemma unat_byte: "unat (a :: byte) < 256"
  using unsigned_less [of a] by simp

lemma length_b64encode: "length (b64encode bs) = 4 * ((length bs + 2) div 3)"
proof (induction bs rule: b64encode.induct)
  case (4 a b c rest)
  have "(length rest + 5) div 3 = Suc ((length rest + 2) div 3)" by arith
  with 4 show ?case by (simp add: add.commute)
qed simp_all

lemma sextet_bounds:
  fixes a b c :: byte
  shows "unat a div 4 < 64" "unat a mod 4 * 16 < 64" "unat a mod 4 * 16 + unat b div 16 < 64"
    "unat b mod 16 * 4 < 64" "unat b mod 16 * 4 + unat c div 64 < 64" "unat c mod 64 < 64"
  using unat_byte [of a] unat_byte [of b] unat_byte [of c] by auto

lemma sextet_index:
  fixes a b c :: byte
  shows "b64_index (b64_char (unat a div 4)) = Some (unat a div 4)"
    "b64_index (b64_char (unat a mod 4 * 16)) = Some (unat a mod 4 * 16)"
    "b64_index (b64_char (unat a mod 4 * 16 + unat b div 16)) = Some (unat a mod 4 * 16 + unat b div 16)"
    "b64_index (b64_char (unat b mod 16 * 4)) = Some (unat b mod 16 * 4)"
    "b64_index (b64_char (unat b mod 16 * 4 + unat c div 64)) = Some (unat b mod 16 * 4 + unat c div 64)"
    "b64_index (b64_char (unat c mod 64)) = Some (unat c mod 64)"
  by (rule b64_index_char, rule sextet_bounds)+

lemma sextet_not_pad:
  fixes b c :: byte
  shows "b64_char (unat b mod 16 * 4) \<noteq> CHR ''=''"
    "b64_char (unat b mod 16 * 4 + unat c div 64) \<noteq> CHR ''=''"
    "b64_char (unat c mod 64) \<noteq> CHR ''=''"
  by (rule b64_char_not_pad, rule sextet_bounds)+

lemma regroup:
  fixes a b c :: byte
  shows "word_of_nat (unat a div 4 * 4 + unat a mod 4 * 16 div 16) = a"
    "word_of_nat (unat a div 4 * 4 + (unat a mod 4 * 16 + unat b div 16) div 16) = a"
    "word_of_nat ((unat a mod 4 * 16 + unat b div 16) mod 16 * 16 + unat b mod 16 * 4 div 4) = b"
    "word_of_nat ((unat a mod 4 * 16 + unat b div 16) mod 16 * 16 +
                  (unat b mod 16 * 4 + unat c div 64) div 4) = b"
    "word_of_nat ((unat b mod 16 * 4 + unat c div 64) mod 4 * 64 + unat c mod 64) = c"
proof -
  from unat_byte [of b] unat_byte [of c] have hi: "unat b div 16 < 16" "unat c div 64 < 4"
    by simp_all
  show "word_of_nat (unat a div 4 * 4 + unat a mod 4 * 16 div 16) = a" by simp
  from hi show "word_of_nat (unat a div 4 * 4 + (unat a mod 4 * 16 + unat b div 16) div 16) = a"
    by simp
  from hi show
    "word_of_nat ((unat a mod 4 * 16 + unat b div 16) mod 16 * 16 + unat b mod 16 * 4 div 4) = b"
    by simp
  from hi show "word_of_nat ((unat a mod 4 * 16 + unat b div 16) mod 16 * 16 +
                  (unat b mod 16 * 4 + unat c div 64) div 4) = b"
    by simp
  from hi show "word_of_nat ((unat b mod 16 * 4 + unat c div 64) mod 4 * 64 + unat c mod 64) = c"
    by simp
qed

lemma high_bits:
  fixes b c :: byte
  shows "unat b div 16 < 16" "unat c div 64 < 4"
  using unat_byte [of b] unat_byte [of c] by simp_all

lemma decode_one_byte:
  "b64decode [b64_char (unat a div 4), b64_char (unat a mod 4 * 16), CHR ''='', CHR ''='']
     = Some [a]"
  by (simp add: sextet_index)

lemma decode_two_bytes:
  "b64decode [b64_char (unat a div 4), b64_char (unat a mod 4 * 16 + unat b div 16),
              b64_char (unat b mod 16 * 4), CHR ''='']
     = Some [a, b]"
  using high_bits(1) [of b]
  by (simp add: sextet_index sextet_not_pad)

lemma decode_three_bytes:
  "b64decode (b64_char (unat a div 4) # b64_char (unat a mod 4 * 16 + unat b div 16) #
              b64_char (unat b mod 16 * 4 + unat c div 64) # b64_char (unat c mod 64) # rest)
     = map_option (\<lambda>bs. a # b # c # bs) (b64decode rest)"
proof -
  have "b64decode (b64_char (unat a div 4) # b64_char (unat a mod 4 * 16 + unat b div 16) #
              b64_char (unat b mod 16 * 4 + unat c div 64) # b64_char (unat c mod 64) # rest)
     = (case b64decode rest of
          Some bs \<Rightarrow>
            Some (of_nat (unat a div 4 * 4 + (unat a mod 4 * 16 + unat b div 16) div 16) #
                  of_nat ((unat a mod 4 * 16 + unat b div 16) mod 16 * 16 +
                          (unat b mod 16 * 4 + unat c div 64) div 4) #
                  of_nat ((unat b mod 16 * 4 + unat c div 64) mod 4 * 64 + unat c mod 64) # bs)
        | None \<Rightarrow> None)"
    by (simp only: b64decode.simps sextet_index sextet_not_pad prod.case option.case
        simp_thms if_False)
  also have "\<dots> = map_option (\<lambda>bs. a # b # c # bs) (b64decode rest)"
    by (simp only: regroup split: option.split) simp
  finally show ?thesis .
qed

lemma b64decode_b64encode: "b64decode (b64encode bs) = Some bs"
proof (induction bs rule: b64encode.induct)
  case 1
  show ?case by simp
next
  case (2 a)
  show ?case by (simp only: b64encode.simps decode_one_byte)
next
  case (3 a b)
  show ?case by (simp only: b64encode.simps decode_two_bytes)
next
  case (4 a b c rest)
  then show ?case by (simp only: b64encode.simps append.simps decode_three_bytes option.map)
qed

lemma b64encode_inj:
  assumes "b64encode xs = b64encode ys"
  shows "xs = ys"
proof -
  have "Some xs = b64decode (b64encode xs)" by (simp only: b64decode_b64encode)
  also have "\<dots> = b64decode (b64encode ys)" by (simp only: assms)
  also have "\<dots> = Some ys" by (simp only: b64decode_b64encode)
  finally show ?thesis by simp
qed


section \<open>Properties of the middleware\<close>

lemma middleware_pass:
  "authenticated settings req \<Longrightarrow> secure_internal_api settings req call_next w = call_next req w"
  by (auto simp: authenticated_def secure_internal_api_def split: option.splits)

lemma protected_success_authenticated:
  assumes "path req \<in> {''/create-qris'', ''/check-payment''}"
    and "secure_internal_api settings req call_next w = (Inr response, w')"
  shows "authenticated settings req \<and> call_next req w = (Inr response, w')"
  using assms
  by (auto simp: secure_internal_api_def authenticated_def split: option.splits sum.splits if_splits)

text \<open>
  With an ASCII secret configured, a request to a protected path whose key is absent, or
  is an ASCII string other than the secret, is refused with 403 and \<open>call_next\<close> is not
  called.
\<close>

lemma mismatch_forbidden_when_ascii:
  assumes "path req \<in> {''/create-qris'', ''/check-payment''}"
    and "INTERNAL_API_KEY settings = Some secret" and "is_ascii secret"
    and "x_api_key req = None \<or> (\<exists>k. x_api_key req = Some k \<and> is_ascii k \<and> k \<noteq> secret)"
  shows "secure_internal_api settings req call_next w = (Inl forbidden, w)"
  using assms by (auto simp: secure_internal_api_def compare_digest_def)

lemma sample_authenticated: "authenticated sample_settings (sample_request p)"
  by (simp add: authenticated_def sample_settings_def sample_request_def compare_digest_def
      is_ascii_def)

text \<open>
  Claim C2. When the configured secret is absent (\<^verbatim>\<open>None\<close>), the comparison never
  returns \<^verbatim>\<open>True\<close>, and every request to a protected path is turned away whatever key
  it carries: with the 403 exception when the key is absent or empty, with the
  \<^verbatim>\<open>TypeError\<close> of \<^verbatim>\<open>compare_digest\<close> otherwise. In neither case is \<open>call_next\<close>
  called, and the world is unchanged.
\<close>

theorem absent_secret_locks_out:
  assumes "INTERNAL_API_KEY settings = None"
    and "path req \<in> {''/create-qris'', ''/check-payment''}"
  shows "compare_digest api_key (INTERNAL_API_KEY settings) \<noteq> Inr True \<and>
         secure_internal_api settings req call_next w =
           (Inl (if x_api_key req = None \<or> x_api_key req = Some [] then forbidden
                 else unsupported_operand_types), w)"
  using assms by (auto simp: secure_internal_api_def compare_digest_def split: option.splits)

theorem absent_secret_locks_out_witness:
  "INTERNAL_API_KEY \<lparr>INTERNAL_API_KEY = None\<rparr> = None \<and>
   compare_digest ''anything'' None \<noteq> Inr True \<and>
   secure_internal_api \<lparr>INTERNAL_API_KEY = None\<rparr>
     \<lparr>path = ''/check-payment'', x_api_key = Some ''anything''\<rparr> counting_next 0 =
     (Inl unsupported_operand_types, 0)"
  using absent_secret_locks_out [of "\<lparr>INTERNAL_API_KEY = None\<rparr>"
      "\<lparr>path = ''/check-payment'', x_api_key = Some ''anything''\<rparr>" "''anything''" counting_next 0]
  by simp

text \<open>
  Claim C3 asks for the 403 exception on every request to a protected path whose key is
  absent or does not match. The code departs from it: with the secret \<^verbatim>\<open>secret\<close>
  configured, the one-character key of code 233 (a Latin-1 letter) does not match, yet
  what leaves the middleware is the \<^verbatim>\<open>TypeError\<close> of \<^verbatim>\<open>compare_digest\<close>, not the 403
  exception. \<open>call_next\<close> is not called: the counter stays at 0.
\<close>

theorem non_ascii_key_raises_type_error:
  "secure_internal_api \<lparr>INTERNAL_API_KEY = Some ''secret''\<rparr>
     \<lparr>path = ''/create-qris'', x_api_key = Some [CHR 0xE9]\<rparr> counting_next 0 =
     (Inl non_ascii_not_supported, 0) \<and>
   non_ascii_not_supported \<noteq> forbidden"
  by (simp add: secure_internal_api_def compare_digest_def is_ascii_def
      non_ascii_not_supported_def forbidden_def)

text \<open>
  Claim C7. The key is checked on exactly the two paths \<^verbatim>\<open>/create-qris\<close> and
  \<^verbatim>\<open>/check-payment\<close>, compared as whole strings: on any other path the middleware is
  \<open>call_next\<close> itself, whatever the headers; on the two paths a request without a key is
  refused; and the root route answers with its fixed payload without any key.
\<close>

theorem middleware_guards_exactly_two_paths:
  "(path req \<notin> {''/create-qris'', ''/check-payment''} \<longrightarrow>
      secure_internal_api settings req call_next w = call_next req w) \<and>
   (path req \<in> {''/create-qris'', ''/check-payment''} \<and> x_api_key req = None \<longrightarrow>
      secure_internal_api settings req call_next w = (Inl forbidden, w)) \<and>
   (path req = ''/'' \<longrightarrow> root_endpoint settings req w = (Inr root, w))"
  by (auto simp: secure_internal_api_def root_endpoint_def)

theorem middleware_guards_exactly_two_paths_witness:
  "secure_internal_api \<lparr>INTERNAL_API_KEY = Some ''secret''\<rparr>
     \<lparr>path = ''/create-qris/'', x_api_key = None\<rparr> counting_next 0 = (Inr root, 1) \<and>
   secure_internal_api \<lparr>INTERNAL_API_KEY = Some ''secret''\<rparr>
     \<lparr>path = ''/create-qris'', x_api_key = None\<rparr> counting_next 0 = (Inl forbidden, 0) \<and>
   root_endpoint \<lparr>INTERNAL_API_KEY = Some ''secret''\<rparr>
     \<lparr>path = ''/'', x_api_key = None\<rparr> (0::nat) = (Inr root, 0)"
  using middleware_guards_exactly_two_paths [of "\<lparr>path = ''/create-qris/'', x_api_key = None\<rparr>"
      "\<lparr>INTERNAL_API_KEY = Some ''secret''\<rparr>" counting_next 0]
    middleware_guards_exactly_two_paths [of "\<lparr>path = ''/create-qris'', x_api_key = None\<rparr>"
      "\<lparr>INTERNAL_API_KEY = Some ''secret''\<rparr>" counting_next 0]
    middleware_guards_exactly_two_paths [of "\<lparr>path = ''/'', x_api_key = None\<rparr>"
      "\<lparr>INTERNAL_API_KEY = Some ''secret''\<rparr>" counting_next "0::nat"]
  by (simp add: counting_next_def)



text \<open>
  Claim C10. \<^verbatim>\<open>compare_digest\<close> returns a truth value only when the secret is a string
  and both it and the key are ASCII. On a protected path a non-empty key reaches the
  comparison, so when the secret is absent, or the key has a non-ASCII character, the
  \<^verbatim>\<open>TypeError\<close> leaves the middleware in place of the 403 exception.
\<close>

theorem compare_digest_total_only_on_ascii:
  "((\<exists>b. compare_digest api_key secret = Inr b) \<longleftrightarrow>
      (\<exists>s. secret = Some s \<and> is_ascii api_key \<and> is_ascii s)) \<and>
   (path req \<in> {''/create-qris'', ''/check-payment''} \<and> x_api_key req = Some api_key \<and>
    api_key \<noteq> [] \<and> INTERNAL_API_KEY settings = secret \<and>
    (secret = None \<or> \<not> is_ascii api_key) \<longrightarrow>
      secure_internal_api settings req call_next w =
        (Inl (if secret = None then unsupported_operand_types else non_ascii_not_supported), w) \<and>
      unsupported_operand_types \<noteq> forbidden \<and> non_ascii_not_supported \<noteq> forbidden)"
  by (auto simp: secure_internal_api_def compare_digest_def forbidden_def
      unsupported_operand_types_def non_ascii_not_supported_def split: option.splits)

theorem compare_digest_total_only_on_ascii_witness:
  "compare_digest ''secret'' (Some ''secret'') = Inr True \<and>
   secure_internal_api \<lparr>INTERNAL_API_KEY = Some ''secret''\<rparr>
     \<lparr>path = ''/check-payment'', x_api_key = Some [CHR 0xE9]\<rparr> counting_next 0 =
     (Inl non_ascii_not_supported, 0) \<and>
   secure_internal_api \<lparr>INTERNAL_API_KEY = None\<rparr>
     \<lparr>path = ''/check-payment'', x_api_key = Some ''secret''\<rparr> counting_next 0 =
     (Inl unsupported_operand_types, 0)"
  using compare_digest_total_only_on_ascii [of "[CHR 0xE9]" "Some ''secret''"
      "\<lparr>path = ''/check-payment'', x_api_key = Some [CHR 0xE9]\<rparr>"
      "\<lparr>INTERNAL_API_KEY = Some ''secret''\<rparr>" counting_next 0]
    compare_digest_total_only_on_ascii [of "''secret''" None
      "\<lparr>path = ''/check-payment'', x_api_key = Some ''secret''\<rparr>"
      "\<lparr>INTERNAL_API_KEY = None\<rparr>" counting_next 0]
    compare_digest_total_only_on_ascii [of "''secret''" "Some ''secret''"]
  by (simp add: is_ascii_def compare_digest_def)

section \<open>Properties of the handlers\<close>

lemma create_qris_Inr:
  assumes "create_qris E payload w = (Inr response, w')"
  shows "\<exists>result img png.
           generate_qr E (CreateQrisRequest.amount payload) w = (Inr result, w') \<and>
           py_get E result ''qr_image'' PNone = Inr (PImage img) \<and>
           save_png E img = Inr png \<and>
           response = \<lparr>QrisResponse.order_ref = CreateQrisRequest.order_ref payload,
                        QrisResponse.amount = CreateQrisRequest.amount payload,
                        qr_image_base64 = ''data:image/png;base64,'' @ b64encode png\<rparr>"
proof -
  from assms have body: "create_qris_try E payload w = (Inr response, w')"
    by (auto simp: create_qris_def split: prod.splits sum.splits)
  from body obtain result
    where gen: "generate_qr E (CreateQrisRequest.amount payload) w = (Inr result, w')"
    by (auto simp: create_qris_try_def split: prod.splits sum.splits)
  with body obtain qr_image where get: "py_get E result ''qr_image'' PNone = Inr qr_image"
    and t: "truthy qr_image"
    by (auto simp: create_qris_try_def split: sum.splits if_splits)
  with body gen obtain png where save: "image_save E qr_image = Inr png"
    and resp: "response = \<lparr>QrisResponse.order_ref = CreateQrisRequest.order_ref payload,
                        QrisResponse.amount = CreateQrisRequest.amount payload,
                        qr_image_base64 = ''data:image/png;base64,'' @ b64encode png\<rparr>"
    by (auto simp: create_qris_try_def split: sum.splits if_splits)
  from save obtain img where "qr_image = PImage img" "save_png E img = Inr png"
    by (cases qr_image) auto
  with gen get resp show ?thesis by blast
qed

text \<open>
  The handler does succeed: an authenticated request whose collaborator result holds an
  image that the imaging library can write gets the response with the data URI.
\<close>

lemma create_qris_succeeds:
  assumes "authenticated settings req"
    and "generate_qr E (CreateQrisRequest.amount payload) w = (Inr (PDict kvs), w')"
    and "map_of kvs ''qr_image'' = Some (PImage img)"
    and "save_png E img = Inr png"
  shows "create_qris_endpoint settings E req payload w =
           (Inr \<lparr>QrisResponse.order_ref = CreateQrisRequest.order_ref payload,
                 QrisResponse.amount = CreateQrisRequest.amount payload,
                 qr_image_base64 = ''data:image/png;base64,'' @ b64encode png\<rparr>, w')"
  using assms(2-4)
  by (simp add: create_qris_endpoint_def middleware_pass [OF assms(1)] create_qris_def
      create_qris_try_def dict_get_def)

lemma sample_run:
  "create_qris_endpoint sample_settings (stub_externals (Inr sample_image) (Inr PNone))
     (sample_request ''/create-qris'') sample_create 0 =
     (Inr \<lparr>QrisResponse.order_ref = ''ORD-1'', QrisResponse.amount = 10000,
           qr_image_base64 = ''data:image/png;base64,Zm9vYmFy''\<rparr>, 1)"
  by (simp add: create_qris_endpoint_def middleware_pass [OF sample_authenticated]
      create_qris_def create_qris_try_def stub_simps sample_image_def dict_get_def
      b64_char_def b64_alphabet_def)

lemma sample_path: "path (sample_request p) = p"
  by (simp add: sample_request_def)

text \<open>
  Claim C1 says that the status is \<^verbatim>\<open>"PAID"\<close> exactly when \<^verbatim>\<open>success\<close> equals true
  and \<^verbatim>\<open>data.status\<close> equals \<^verbatim>\<open>"PAID"\<close>, and \<^verbatim>\<open>"PENDING"\<close> for every other result.
  Two results of the collaborator show that the handler does otherwise. For
  \<^verbatim>\<open>{'success': 'yes', 'data': {'status': 'PAID'}}\<close> it answers \<^verbatim>\<open>"PAID"\<close>, since the
  non-empty string is truthy, although \<^verbatim>\<open>success\<close> does not equal true. For
  \<^verbatim>\<open>{'success': True, 'data': None}\<close> it answers neither status: \<^verbatim>\<open>None.get\<close> raises,
  and the handler raises its 500.
\<close>

theorem check_payment_status_counterexample:
  "check_payment_status (stub_externals (Inr PNone) (Inr yes_paid_result)) sample_check 0 =
     (Inr \<lparr>status = ''PAID''\<rparr>, 1) \<and>
   spec_status yes_paid_result = \<lparr>status = ''PENDING''\<rparr> \<and>
   check_payment_status (stub_externals (Inr PNone) (Inr null_data_result)) sample_check 0 =
     (Inl (HTTPException 500 (''Error saat memeriksa pembayaran: '' @ quoted ''NoneType'' @
                              '' object has no attribute '' @ quoted ''get'')), 1) \<and>
   spec_status null_data_result = \<lparr>status = ''PENDING''\<rparr>"
  by (simp add: check_payment_status_def check_payment_status_try_def stub_simps
      yes_paid_result_def null_data_result_def spec_status_def py_equals_true_def
      dict_get_def no_attribute_def)

text \<open>
  Claim C1, as amended. Let the collaborator's result be a dictionary. If its
  \<^verbatim>\<open>success\<close> entry is absent or falsy, the handler answers \<^verbatim>\<open>"PENDING"\<close> and does not
  look at \<^verbatim>\<open>data\<close>. If \<^verbatim>\<open>success\<close> is truthy and \<^verbatim>\<open>data\<close> is absent (then taken as
  the empty dictionary) or a dictionary, the handler answers \<^verbatim>\<open>"PAID"\<close> when the
  \<^verbatim>\<open>status\<close> entry of \<^verbatim>\<open>data\<close> is the string \<^verbatim>\<open>"PAID"\<close>, and \<^verbatim>\<open>"PENDING"\<close> otherwise.
\<close>

theorem check_payment_status_mapping:
  assumes "check_payment E (CheckStatusRequest.order_ref payload)
             (CheckStatusRequest.amount payload) w = (Inr (PDict kvs), w')"
  shows "(\<not> truthy (dict_get kvs ''success'' PNone) \<longrightarrow>
            check_payment_status E payload w = (Inr \<lparr>status = ''PENDING''\<rparr>, w')) \<and>
         (truthy (dict_get kvs ''success'' PNone) \<and> dict_get kvs ''data'' (PDict []) = PDict d \<longrightarrow>
            check_payment_status E payload w =
              (Inr \<lparr>status = (if map_of d ''status'' = Some (PStr ''PAID'')
                               then ''PAID'' else ''PENDING'')\<rparr>, w'))"
  using assms
  by (auto simp: check_payment_status_def check_payment_status_try_def dict_get_def
      split: option.splits)

theorem check_payment_status_mapping_witness:
  "check_payment_status (stub_externals (Inr PNone) (Inr yes_paid_result)) sample_check 0 =
     (Inr \<lparr>status = ''PAID''\<rparr>, 1) \<and>
   check_payment_status (stub_externals (Inr PNone)
       (Inr (PDict [(''success'', PBool True), (''data'', PDict [(''status'', PStr ''EXPIRED'')])])))
     sample_check 0 = (Inr \<lparr>status = ''PENDING''\<rparr>, 1) \<and>
   check_payment_status (stub_externals (Inr PNone)
       (Inr (PDict [(''success'', PBool False), (''data'', PNone)])))
     sample_check 0 = (Inr \<lparr>status = ''PENDING''\<rparr>, 1)"
  using check_payment_status_mapping [of "stub_externals (Inr PNone) (Inr yes_paid_result)"
      sample_check 0 "[(''success'', PStr ''yes''), (''data'', PDict [(''status'', PStr ''PAID'')])]"
      1 "[(''status'', PStr ''PAID'')]"]
    check_payment_status_mapping [of "stub_externals (Inr PNone)
       (Inr (PDict [(''success'', PBool True), (''data'', PDict [(''status'', PStr ''EXPIRED'')])]))"
      sample_check 0 "[(''success'', PBool True), (''data'', PDict [(''status'', PStr ''EXPIRED'')])]"
      1 "[(''status'', PStr ''EXPIRED'')]"]
    check_payment_status_mapping [of "stub_externals (Inr PNone)
       (Inr (PDict [(''success'', PBool False), (''data'', PNone)]))"
      sample_check 0 "[(''success'', PBool False), (''data'', PNone)]" 1 "[]"]
  by (simp add: stub_simps yes_paid_result_def dict_get_def)

text \<open>
  Claim C4. When a request to \<^verbatim>\<open>/create-qris\<close> succeeds, it was authenticated, and the
  response carries the request's \<^verbatim>\<open>order_ref\<close> and \<^verbatim>\<open>amount\<close> unchanged.
\<close>

theorem create_qris_echoes_request:
  assumes "path req = ''/create-qris''"
    and "create_qris_endpoint settings E req payload w = (Inr response, w')"
  shows "authenticated settings req \<and>
         QrisResponse.order_ref response = CreateQrisRequest.order_ref payload \<and>
         QrisResponse.amount response = CreateQrisRequest.amount payload"
proof -
  from assms have "authenticated settings req" and "create_qris E payload w = (Inr response, w')"
    using protected_success_authenticated [of req settings "\<lambda>_. create_qris E payload" w response w']
    by (simp_all add: create_qris_endpoint_def)
  with create_qris_Inr [of E payload w response w'] show ?thesis by auto
qed

theorem create_qris_echoes_request_witness:
  "path (sample_request ''/create-qris'') = ''/create-qris'' \<and>
   create_qris_endpoint sample_settings (stub_externals (Inr sample_image) (Inr PNone))
     (sample_request ''/create-qris'') sample_create 0 =
     (Inr \<lparr>QrisResponse.order_ref = ''ORD-1'', QrisResponse.amount = 10000,
           qr_image_base64 = ''data:image/png;base64,Zm9vYmFy''\<rparr>, 1) \<and>
   CreateQrisRequest.order_ref sample_create = ''ORD-1'' \<and>
   CreateQrisRequest.amount sample_create = 10000"
  using create_qris_echoes_request [OF sample_path sample_run] sample_run
    sample_path [of "''/create-qris''"]
  by simp



text \<open>
  Claim C6. On an authenticated request to \<^verbatim>\<open>/create-qris\<close>, when the collaborator's
  result has no \<^verbatim>\<open>qr_image\<close> entry or a falsy one, the handler raises the 500 exception;
  its detail is the handler's prefix followed by the text of the inner exception
  \<^verbatim>\<open>HTTPException(500, "Library QRIS gagal membuat gambar.")\<close>.
\<close>

theorem missing_image_gives_500:
  assumes "authenticated settings req"
    and "generate_qr E (CreateQrisRequest.amount payload) w = (Inr (PDict kvs), w')"
    and "map_of kvs ''qr_image'' = None \<or> (\<exists>v. map_of kvs ''qr_image'' = Some v \<and> \<not> truthy v)"
  shows "create_qris_endpoint settings E req payload w =
           (Inl (HTTPException 500
                  (''Error saat generate QR: '' @
                   http_exception_str E 500 ''Library QRIS gagal membuat gambar.'')), w')"
  using assms(2,3)
  by (auto simp: create_qris_endpoint_def middleware_pass [OF assms(1)] create_qris_def
      create_qris_try_def dict_get_def)

theorem missing_image_gives_500_witness:
  "authenticated sample_settings (sample_request ''/create-qris'') \<and>
   create_qris_endpoint sample_settings
     (stub_externals (Inr (PDict [(''qr_string'', PStr ''000201'')])) (Inr PNone))
     (sample_request ''/create-qris'') sample_create 0 =
     (Inl (HTTPException 500 ''Error saat generate QR: Library QRIS gagal membuat gambar.''), 1) \<and>
   create_qris_endpoint sample_settings
     (stub_externals (Inr (PDict [(''qr_image'', PNone)])) (Inr PNone))
     (sample_request ''/create-qris'') sample_create 0 =
     (Inl (HTTPException 500 ''Error saat generate QR: Library QRIS gagal membuat gambar.''), 1)"
  using missing_image_gives_500 [OF sample_authenticated, of
      "stub_externals (Inr (PDict [(''qr_string'', PStr ''000201'')])) (Inr PNone)" sample_create 0
      "[(''qr_string'', PStr ''000201'')]" 1 "''/create-qris''"]
    missing_image_gives_500 [OF sample_authenticated, of
      "stub_externals (Inr (PDict [(''qr_image'', PNone)])) (Inr PNone)" sample_create 0
      "[(''qr_image'', PNone)]" 1 "''/create-qris''"]
    sample_authenticated [of "''/create-qris''"]
  by (simp add: stub_externals_def)



end
